theory Spec2Isabelle
  imports Main
begin

section \<open>Values of the host language\<close>

text \<open>
  A string of the source is modelled by the bytes of its UTF-8 text, one \<^typ>\<open>char\<close>
  per byte. Concatenation, emptiness and a trailing \<open>/\<close> (byte 0x2F, never a part of a
  longer UTF-8 sequence) are the same on both sides, and the form-urlencoded serializer
  works on exactly these bytes.
\<close>

text \<open>
  A \<open>number\<close> is observed by the client through its truthiness and its decimal rendering
  only. \<open>Integer n\<close> is the integer-valued double \<open>n\<close> (positive zero for \<open>n = 0\<close>) in
  the range that \<open>Number.prototype.toString\<close> prints in plain decimal digits;
  \<open>OtherFinite s\<close> is any other finite, non-zero double, carried by its rendering \<open>s\<close>.
\<close>

datatype number =
    NaN
  | PosInfinity
  | NegInfinity
  | NegZero
  | Integer int
  | OtherFinite string

text \<open>An optional property or argument: missing or \<open>undefined\<close>, \<open>null\<close>, or a value.\<close>

datatype 'a optional = Undefined | Null | Given 'a

definition digit_char :: "nat \<Rightarrow> char" where
  "digit_char d = ''0123456789ABCDEF'' ! d"

function decimal :: "nat \<Rightarrow> string" where
  "decimal n = (if n < 10 then [digit_char n] else decimal (n div 10) @ [digit_char (n mod 10)])"
  by pat_completeness auto
termination
  by (relation "measure id") auto

declare decimal.simps [simp del]

text \<open>\<open>Number.prototype.toString()\<close> with the default radix, and the same conversion
  inside a template literal.\<close>

fun Number_toString :: "number \<Rightarrow> string" where
  "Number_toString NaN = ''NaN''"
| "Number_toString PosInfinity = ''Infinity''"
| "Number_toString NegInfinity = ''-Infinity''"
| "Number_toString NegZero = ''0''"
| "Number_toString (Integer n) = (if n < 0 then ''-'' @ decimal (nat (- n)) else decimal (nat n))"
| "Number_toString (OtherFinite s) = s"

text \<open>\<open>ToBoolean\<close> on a number: \<open>+0\<close>, \<open>-0\<close> and \<open>NaN\<close> are falsy.\<close>

fun number_truthy :: "number \<Rightarrow> bool" where
  "number_truthy NaN = False"
| "number_truthy NegZero = False"
| "number_truthy (Integer n) = (n \<noteq> 0)"
| "number_truthy _ = True"

text \<open>
  JavaScript values as far as response bodies and request payloads need them.
  \<open>JObject ps\<close> is a plain object with its own enumerable string-keyed properties in
  insertion order, \<open>JArray\<close> an array. \<open>JFunction\<close> stands for a function or a symbol.
  \<open>JToJSON v\<close> is an object with no enumerable property of its own and a \<open>toJSON\<close>
  method that returns \<open>v\<close> (a \<open>Date\<close> returns its ISO string). \<open>JCircular\<close> is a
  reference to an object or array that encloses it.
\<close>

datatype jsvalue =
    JUndefined
  | JNull
  | JBoolean bool
  | JNumber number
  | JBigInt int
  | JString string
  | JFunction
  | JArray "jsvalue list"
  | JObject "(string \<times> jsvalue) list"
  | JToJSON jsvalue
  | JCircular

text \<open>A thrown value: the error's \<open>name\<close> and its \<open>message\<close>.\<close>

datatype js_error = JsError (error_name: string) (error_message: string)

definition new_Error :: "string \<Rightarrow> js_error" where
  "new_Error message = JsError ''Error'' message"

section \<open>\<open>URLSearchParams\<close>\<close>

type_synonym URLSearchParams = "(string \<times> string) list"

definition new_URLSearchParams :: URLSearchParams where
  "new_URLSearchParams = []"

text \<open>\<open>set(name, value)\<close>: the first pair of that name takes the value and the later ones
  are removed; without such a pair, the new pair is appended.\<close>

fun URLSearchParams_set :: "URLSearchParams \<Rightarrow> string \<Rightarrow> string \<Rightarrow> URLSearchParams" where
  "URLSearchParams_set [] name v = [(name, v)]"
| "URLSearchParams_set ((k, w) # ps) name v =
     (if k = name then (name, v) # filter (\<lambda>p. fst p \<noteq> name) ps
      else (k, w) # URLSearchParams_set ps name v)"

text \<open>The \<open>application/x-www-form-urlencoded\<close> byte serializer: a space becomes \<open>+\<close>,
  ASCII alphanumerics and \<open>* - . _\<close> stay, every other byte is \<open>%\<close> and two upper-case
  hexadecimal digits.\<close>

definition urlencoded_unreserved :: "char \<Rightarrow> bool" where
  "urlencoded_unreserved c \<longleftrightarrow>
     c \<in> set ''abcdefghijklmnopqrstuvwxyzABCDEFGHIJKLMNOPQRSTUVWXYZ0123456789*-._''"

definition urlencode_byte :: "char \<Rightarrow> string" where
  "urlencode_byte c =
     (if c = CHR '' '' then ''+''
      else if urlencoded_unreserved c then [c]
      else [CHR ''%'', digit_char (of_char c div 16), digit_char (of_char c mod 16)])"

definition urlencode :: "string \<Rightarrow> string" where
  "urlencode s = concat (map urlencode_byte s)"

fun join :: "string \<Rightarrow> string list \<Rightarrow> string" where
  "join sep [] = []"
| "join sep [x] = x"
| "join sep (x # y # ys) = x @ sep @ join sep (y # ys)"

definition URLSearchParams_toString :: "URLSearchParams \<Rightarrow> string" where
  "URLSearchParams_toString ps = join ''&'' (map (\<lambda>(k, v). urlencode k @ ''='' @ urlencode v) ps)"

section \<open>The client\<close>

record SDKConfig =
  baseUrl :: string
  apiKey :: string

text \<open>The private fields of \<open>CloudComputeSDK\<close>.\<close>

record CloudComputeSDK =
  this_baseUrl :: string
  this_apiKey :: string

text \<open>\<open>s.replace(/\/$/, '')\<close>: without the \<open>m\<close> flag \<open>$\<close> matches at the end of the
  input only, so the one possible match is a final \<open>/\<close>.\<close>

definition replace_trailing_slash :: "string \<Rightarrow> string" where
  "replace_trailing_slash s = (if s \<noteq> [] \<and> last s = CHR ''/'' then butlast s else s)"

definition constructor :: "SDKConfig \<Rightarrow> CloudComputeSDK" where
  "constructor config =
     \<lparr> this_baseUrl = replace_trailing_slash (baseUrl config), this_apiKey = apiKey config \<rparr>"

section \<open>The request layer\<close>

text \<open>\<open>RequestInit\<close> as far as the client uses it; a missing property is \<open>None\<close>.\<close>

record RequestInit =
  http_method :: "string option"
  body :: "string option"
  headers :: "(string \<times> string) list option"

text \<open>The default \<open>options = {}\<close>.\<close>

definition no_options :: RequestInit where
  "no_options = \<lparr> http_method = None, body = None, headers = None \<rparr>"

text \<open>The two arguments that \<open>fetch\<close> is called with.\<close>

record fetch_args =
  url :: string
  init :: RequestInit

text \<open>A response as the client reads it: \<open>status\<close>, and how the promise of \<open>json()\<close>
  settles: \<open>Inr\<close> the decoded value, or \<open>Inl\<close> the error it rejects with, which is a
  \<open>SyntaxError\<close> for a body that is not JSON and the transport's error when the
  connection fails while the body is read. \<open>ok\<close> is the getter of the Fetch standard.\<close>

record Response =
  status :: nat
  json :: "js_error + jsvalue"

definition ok :: "Response \<Rightarrow> bool" where
  "ok response \<longleftrightarrow> 200 \<le> status response \<and> status response \<le> 299"

text \<open>The platform's \<open>fetch\<close>: it rejects with the transport's error or fulfils with a
  response.\<close>

type_synonym fetch = "fetch_args \<Rightarrow> js_error + Response"

text \<open>Assigning a property of an object literal: an existing key keeps its place and takes
  the new value, a new key goes last. A spread assigns the source's properties in order;
  spreading \<open>undefined\<close> assigns nothing.\<close>

fun object_set :: "(string \<times> 'v) list \<Rightarrow> string \<Rightarrow> 'v \<Rightarrow> (string \<times> 'v) list" where
  "object_set [] k v = [(k, v)]"
| "object_set ((k', v') # ps) k v =
     (if k' = k then (k, v) # ps else (k', v') # object_set ps k v)"

definition spread :: "(string \<times> 'v) list \<Rightarrow> (string \<times> 'v) list option \<Rightarrow> (string \<times> 'v) list" where
  "spread obj src =
     (case src of None \<Rightarrow> obj | Some ps \<Rightarrow> foldl (\<lambda>acc (k, v). object_set acc k v) obj ps)"

text \<open>Reading a property: \<open>undefined\<close> when the object has no such key.\<close>

definition get_property :: "(string \<times> 'v) list \<Rightarrow> string \<Rightarrow> 'v option" where
  "get_property obj k = map_of obj k"

text \<open>What one call of \<open>request\<close> does: the arguments it gives to \<open>fetch\<close>, and how its
  promise settles (\<open>Inl\<close>: it rejects with that error; \<open>Inr\<close>: it resolves).\<close>

record exchange =
  issued :: fetch_args
  outcome :: "js_error + jsvalue"

definition parse_failure :: jsvalue where
  "parse_failure = JObject [(''error'', JString ''Failed to parse response body as JSON'')]"

text \<open>The body parsed once; a rejected \<open>json()\<close> is caught, whatever the error, and
  replaced.\<close>

definition parsed_body :: "Response \<Rightarrow> jsvalue" where
  "parsed_body response = (case json response of Inr v \<Rightarrow> v | Inl e \<Rightarrow> parse_failure)"

text \<open>The message of the error thrown for a response that is not \<open>ok\<close>.\<close>

definition failure_message :: "Response \<Rightarrow> jsvalue \<Rightarrow> string" where
  "failure_message response parsed =
     (let message = ''HTTP '' @ Number_toString (Integer (int (status response)))
      in case parsed of
           JObject props \<Rightarrow>
             (case get_property props ''error'' of
                Some (JString e) \<Rightarrow> e
              | _ \<Rightarrow> message)
         | _ \<Rightarrow> message)"

definition request :: "fetch \<Rightarrow> CloudComputeSDK \<Rightarrow> string \<Rightarrow> RequestInit \<Rightarrow> exchange" where
  "request fetch this endpoint options =
     (let url' = this_baseUrl this @ endpoint;
          args = \<lparr> url = url',
                   init = options \<lparr> headers :=
                     Some (spread [(''Content-Type'', ''application/json''),
                                   (''x-api-key'', this_apiKey this)] (headers options)) \<rparr> \<rparr>
      in \<lparr> issued = args,
           outcome =
             (case fetch args of
                Inl e \<Rightarrow> Inl e
              | Inr response \<Rightarrow>
                  (let parsed = parsed_body response
                   in if \<not> ok response then Inl (new_Error (failure_message response parsed))
                      else Inr parsed)) \<rparr>)"

section \<open>Query-string call-sites\<close>

text \<open>\<open>params?.field\<close>.\<close>

definition opt_chain :: "'r optional \<Rightarrow> ('r \<Rightarrow> 'a optional) \<Rightarrow> 'a optional" where
  "opt_chain params field = (case params of Given r \<Rightarrow> field r | _ \<Rightarrow> Undefined)"

text \<open>\<open>if (v) searchParams.set(name, v)\<close> for a string-typed \<open>v\<close>.\<close>

definition set_if_string :: "URLSearchParams \<Rightarrow> string \<Rightarrow> string optional \<Rightarrow> URLSearchParams" where
  "set_if_string searchParams name v =
     (case v of
        Given s \<Rightarrow> if s \<noteq> [] then URLSearchParams_set searchParams name s else searchParams
      | _ \<Rightarrow> searchParams)"

text \<open>\<open>if (v) searchParams.set(name, v.toString())\<close> for a number-typed \<open>v\<close>.\<close>

definition set_if_number :: "URLSearchParams \<Rightarrow> string \<Rightarrow> number optional \<Rightarrow> URLSearchParams" where
  "set_if_number searchParams name v =
     (case v of
        Given n \<Rightarrow>
          if number_truthy n then URLSearchParams_set searchParams name (Number_toString n)
          else searchParams
      | _ \<Rightarrow> searchParams)"

text \<open>The tail of every endpoint template:
  \<open>${searchParams.toString() ? `?${searchParams}` : ''}\<close>.\<close>

definition query_suffix :: "URLSearchParams \<Rightarrow> string" where
  "query_suffix searchParams =
     (if URLSearchParams_toString searchParams \<noteq> [] then ''?'' @ URLSearchParams_toString searchParams
      else [])"

section \<open>\<open>JSON.stringify\<close>\<close>

definition hex_lower :: "nat \<Rightarrow> char" where
  "hex_lower d = ''0123456789abcdef'' ! d"

text \<open>\<open>QuoteJSONString\<close>, byte by byte: the quotation mark (0x22), the reverse solidus
  (0x5C) and the control characters are escaped.\<close>

definition quote_byte :: "char \<Rightarrow> string" where
  "quote_byte c =
     (if c = CHR 0x22 then [CHR 0x5C, CHR 0x22]
      else if c = CHR 0x5C then [CHR 0x5C, CHR 0x5C]
      else if c = CHR 0x08 then [CHR 0x5C, CHR ''b'']
      else if c = CHR 0x09 then [CHR 0x5C, CHR ''t'']
      else if c = CHR 0x0A then [CHR 0x5C, CHR ''n'']
      else if c = CHR 0x0C then [CHR 0x5C, CHR ''f'']
      else if c = CHR 0x0D then [CHR 0x5C, CHR ''r'']
      else if (of_char c :: nat) < 32
        then [CHR 0x5C, CHR ''u'', CHR ''0'', CHR ''0'',
              hex_lower (of_char c div 16), hex_lower (of_char c mod 16)]
      else [c])"

definition QuoteJSONString :: "string \<Rightarrow> string" where
  "QuoteJSONString s = [CHR 0x22] @ concat (map quote_byte s) @ [CHR 0x22]"

fun number_finite :: "number \<Rightarrow> bool" where
  "number_finite NaN = False"
| "number_finite PosInfinity = False"
| "number_finite NegInfinity = False"
| "number_finite _ = True"

text \<open>The order in which an object's own properties are enumerated: the keys that are
  array indices (canonical decimal numerals up to \<open>2^32 - 2\<close>) in ascending order, then
  the other keys in insertion order.\<close>

definition is_digit :: "char \<Rightarrow> bool" where
  "is_digit c \<longleftrightarrow> c \<in> set ''0123456789''"

definition decimal_value :: "string \<Rightarrow> nat" where
  "decimal_value s = foldl (\<lambda>n c. 10 * n + (of_char c - 48)) 0 s"

definition array_index :: "string \<Rightarrow> nat option" where
  "array_index k =
     (if k \<noteq> [] \<and> list_all is_digit k \<and> (if hd k = CHR ''0'' then k = ''0'' else True)
         \<and> decimal_value k \<le> 4294967294
      then Some (decimal_value k) else None)"

definition property_order :: "(string \<times> 'v) list \<Rightarrow> (string \<times> 'v) list" where
  "property_order ps =
     map snd (sort_key fst
        (concat (map (\<lambda>p. case array_index (fst p) of Some i \<Rightarrow> [(i, p)] | None \<Rightarrow> []) ps)))
     @ filter (\<lambda>p. array_index (fst p) = None) ps"

text \<open>Serializing the parts of a value one after the other: the first part that throws
  ends the serialization with its error.\<close>

fun first_throw :: "(js_error + 'a) list \<Rightarrow> js_error + 'a list" where
  "first_throw [] = Inr []"
| "first_throw (Inl e # rs) = Inl e"
| "first_throw (Inr x # rs) =
     (case first_throw rs of Inl e \<Rightarrow> Inl e | Inr xs \<Rightarrow> Inr (x # xs))"

fun keyed :: "string \<times> (js_error + 'a) \<Rightarrow> js_error + (string \<times> 'a)" where
  "keyed (k, Inl e) = Inl e"
| "keyed (k, Inr x) = Inr (k, x)"

text \<open>The two \<open>TypeError\<close>s of \<open>JSON.stringify\<close>; the standard fixes the error's name, the
  message is the engine's.\<close>

definition cannot_serialize_BigInt :: js_error where
  "cannot_serialize_BigInt = JsError ''TypeError'' ''Do not know how to serialize a BigInt''"

definition circular_structure :: js_error where
  "circular_structure = JsError ''TypeError'' ''Converting circular structure to JSON''"

fun is_JToJSON :: "jsvalue \<Rightarrow> bool" where
  "is_JToJSON (JToJSON v) = True"
| "is_JToJSON _ = False"

text \<open>What a serialized property contributes to the text of an object, and a
  serialized element to the text of an array.\<close>

fun member :: "string \<times> string option \<Rightarrow> string list" where
  "member (k, None) = []"
| "member (k, Some u) = [QuoteJSONString k @ '':'' @ u]"

fun element :: "string option \<Rightarrow> string" where
  "element None = ''null''"
| "element (Some u) = u"

text \<open>\<open>SerializeJSONProperty\<close>: \<open>Inl\<close> when it throws, \<open>Inr None\<close> for its \<open>undefined\<close>.
  A \<open>toJSON\<close> method is called once and its result is serialized in place of the value,
  without another call of \<open>toJSON\<close> on that result itself. A property whose value
  serializes to \<open>undefined\<close> is left out of an object and written \<open>null\<close> in an array.
  The properties of an object are serialized in the order of \<open>property_order\<close>.\<close>

fun SerializeJSONProperty :: "jsvalue \<Rightarrow> js_error + string option" where
  "SerializeJSONProperty (JToJSON v) =
     (if is_JToJSON v then Inr (Some ''{}'') else SerializeJSONProperty v)"
| "SerializeJSONProperty JUndefined = Inr None"
| "SerializeJSONProperty JFunction = Inr None"
| "SerializeJSONProperty JNull = Inr (Some ''null'')"
| "SerializeJSONProperty (JBoolean b) = Inr (Some (if b then ''true'' else ''false''))"
| "SerializeJSONProperty (JNumber n) =
     Inr (Some (if number_finite n then Number_toString n else ''null''))"
| "SerializeJSONProperty (JBigInt n) = Inl cannot_serialize_BigInt"
| "SerializeJSONProperty (JString s) = Inr (Some (QuoteJSONString s))"
| "SerializeJSONProperty JCircular = Inl circular_structure"
| "SerializeJSONProperty (JArray xs) =
     (case first_throw (map SerializeJSONProperty xs) of
        Inl e \<Rightarrow> Inl e
      | Inr ts \<Rightarrow>
          Inr (Some (''['' @ join '','' (map element ts) @ '']'')))"
| "SerializeJSONProperty (JObject ps) =
     (case first_throw (map keyed
              (property_order (map (\<lambda>(k, v). (k, SerializeJSONProperty v)) ps))) of
        Inl e \<Rightarrow> Inl e
      | Inr ts \<Rightarrow>
          Inr (Some (''{'' @ join '',''
                 (concat (map member ts)) @ ''}'')))"

text \<open>\<open>JSON.stringify(value)\<close> with no replacer and no indentation.\<close>

definition JSON_stringify :: "jsvalue \<Rightarrow> js_error + string option" where
  "JSON_stringify v = SerializeJSONProperty v"

section \<open>The resource groups\<close>

record InventoryListParams =
  provider_id :: "string optional"
  region_id :: "string optional"
  instance_type :: "string optional"
  min_vcpu :: "number optional"
  max_price_usd_hr :: "number optional"
  accel_model :: "string optional"
  availability_type :: "string optional"
  limit :: "number optional"
  offset :: "number optional"

record GetByProviderParams =
  region_code :: "string optional"
  instance_type :: "string optional"
  min_vcpu :: "number optional"
  max_price_usd_hr :: "number optional"
  limit :: "number optional"
  offset :: "number optional"

record DeploymentsListParams =
  limit :: "number optional"
  offset :: "number optional"
  status :: "string optional"

record UsageLogsParams =
  limit :: "number optional"
  offset :: "number optional"
  start_date :: "string optional"
  end_date :: "string optional"
  endpoint :: "string optional"

record DateRangeParams =
  start_date :: "string optional"
  end_date :: "string optional"

subsection \<open>providers\<close>

definition providers_list :: "fetch \<Rightarrow> CloudComputeSDK \<Rightarrow> exchange" where
  "providers_list fetch this = request fetch this ''/sdk-providers'' no_options"

definition providers_getRegions :: "fetch \<Rightarrow> CloudComputeSDK \<Rightarrow> string optional \<Rightarrow> exchange" where
  "providers_getRegions fetch this providerId =
     (let searchParams = new_URLSearchParams;
          searchParams = set_if_string searchParams ''provider_id'' providerId;
          endpoint = ''/sdk-providers/regions'' @ query_suffix searchParams
      in request fetch this endpoint no_options)"

definition providers_getTemplates :: "fetch \<Rightarrow> CloudComputeSDK \<Rightarrow> string optional \<Rightarrow> exchange" where
  "providers_getTemplates fetch this providerId =
     (let searchParams = new_URLSearchParams;
          searchParams = set_if_string searchParams ''provider_id'' providerId;
          endpoint = ''/sdk-providers/templates'' @ query_suffix searchParams
      in request fetch this endpoint no_options)"

subsection \<open>inventory\<close>

definition inventory_list ::
  "fetch \<Rightarrow> CloudComputeSDK \<Rightarrow> InventoryListParams optional \<Rightarrow> exchange" where
  "inventory_list fetch this params =
     (let searchParams = new_URLSearchParams;
          searchParams = set_if_string searchParams ''provider_id''
                           (opt_chain params InventoryListParams.provider_id);
          searchParams = set_if_string searchParams ''region_id''
                           (opt_chain params InventoryListParams.region_id);
          searchParams = set_if_string searchParams ''instance_type''
                           (opt_chain params InventoryListParams.instance_type);
          searchParams = set_if_number searchParams ''min_vcpu''
                           (opt_chain params InventoryListParams.min_vcpu);
          searchParams = set_if_number searchParams ''max_price_usd_hr''
                           (opt_chain params InventoryListParams.max_price_usd_hr);
          searchParams = set_if_string searchParams ''accel_model''
                           (opt_chain params InventoryListParams.accel_model);
          searchParams = set_if_string searchParams ''availability_type''
                           (opt_chain params InventoryListParams.availability_type);
          searchParams = set_if_number searchParams ''limit''
                           (opt_chain params InventoryListParams.limit);
          searchParams = set_if_number searchParams ''offset''
                           (opt_chain params InventoryListParams.offset);
          endpoint = ''/sdk-inventory'' @ query_suffix searchParams
      in request fetch this endpoint no_options)"

definition inventory_get :: "fetch \<Rightarrow> CloudComputeSDK \<Rightarrow> string \<Rightarrow> exchange" where
  "inventory_get fetch this inventoryId =
     request fetch this (''/sdk-inventory/'' @ inventoryId) no_options"

definition inventory_getByProvider ::
  "fetch \<Rightarrow> CloudComputeSDK \<Rightarrow> string \<Rightarrow> GetByProviderParams optional \<Rightarrow> exchange" where
  "inventory_getByProvider fetch this providerName params =
     (let searchParams = new_URLSearchParams;
          searchParams = URLSearchParams_set searchParams ''provider'' providerName;
          searchParams = set_if_string searchParams ''region_code''
                           (opt_chain params GetByProviderParams.region_code);
          searchParams = set_if_string searchParams ''instance_type''
                           (opt_chain params GetByProviderParams.instance_type);
          searchParams = set_if_number searchParams ''min_vcpu''
                           (opt_chain params GetByProviderParams.min_vcpu);
          searchParams = set_if_number searchParams ''max_price_usd_hr''
                           (opt_chain params GetByProviderParams.max_price_usd_hr);
          searchParams = set_if_number searchParams ''limit''
                           (opt_chain params GetByProviderParams.limit);
          searchParams = set_if_number searchParams ''offset''
                           (opt_chain params GetByProviderParams.offset);
          endpoint = ''/sdk-inventory/provider/'' @ providerName @ query_suffix searchParams
      in request fetch this endpoint no_options)"

subsection \<open>deployments\<close>

text \<open>The \<open>CreateDeploymentRequest\<close> argument is the object the caller passes. The
  argument \<open>JSON.stringify(params)\<close> of \<open>this.request\<close> is evaluated first: when it throws,
  \<open>create\<close> rejects with that error (\<open>Inl\<close>) and \<open>request\<close> is not called; otherwise
  \<open>request\<close> is called with the text as the body (\<open>post_deployment\<close>).\<close>

definition post_deployment :: "fetch \<Rightarrow> CloudComputeSDK \<Rightarrow> string option \<Rightarrow> exchange" where
  "post_deployment fetch this text =
     request fetch this ''/sdk-deployments''
       \<lparr> http_method = Some ''POST'', body = text, headers = None \<rparr>"

definition deployments_create ::
  "fetch \<Rightarrow> CloudComputeSDK \<Rightarrow> jsvalue \<Rightarrow> js_error + exchange" where
  "deployments_create fetch this params =
     (case JSON_stringify params of
        Inl e \<Rightarrow> Inl e
      | Inr text \<Rightarrow> Inr (post_deployment fetch this text))"

definition deployments_list ::
  "fetch \<Rightarrow> CloudComputeSDK \<Rightarrow> DeploymentsListParams optional \<Rightarrow> exchange" where
  "deployments_list fetch this params =
     (let searchParams = new_URLSearchParams;
          searchParams = set_if_number searchParams ''limit''
                           (opt_chain params DeploymentsListParams.limit);
          searchParams = set_if_number searchParams ''offset''
                           (opt_chain params DeploymentsListParams.offset);
          searchParams = set_if_string searchParams ''status''
                           (opt_chain params DeploymentsListParams.status);
          endpoint = ''/sdk-deployments'' @ query_suffix searchParams
      in request fetch this endpoint no_options)"

definition deployments_get :: "fetch \<Rightarrow> CloudComputeSDK \<Rightarrow> string \<Rightarrow> exchange" where
  "deployments_get fetch this deploymentId =
     request fetch this (''/sdk-deployments/'' @ deploymentId) no_options"

subsection \<open>usage\<close>

definition usage_getLogs ::
  "fetch \<Rightarrow> CloudComputeSDK \<Rightarrow> UsageLogsParams optional \<Rightarrow> exchange" where
  "usage_getLogs fetch this params =
     (let searchParams = new_URLSearchParams;
          searchParams = set_if_number searchParams ''limit''
                           (opt_chain params UsageLogsParams.limit);
          searchParams = set_if_number searchParams ''offset''
                           (opt_chain params UsageLogsParams.offset);
          searchParams = set_if_string searchParams ''start_date''
                           (opt_chain params UsageLogsParams.start_date);
          searchParams = set_if_string searchParams ''end_date''
                           (opt_chain params UsageLogsParams.end_date);
          searchParams = set_if_string searchParams ''endpoint''
                           (opt_chain params UsageLogsParams.endpoint);
          endpoint = ''/sdk-usage-tracking/logs'' @ query_suffix searchParams
      in request fetch this endpoint no_options)"

definition usage_getSummary ::
  "fetch \<Rightarrow> CloudComputeSDK \<Rightarrow> DateRangeParams optional \<Rightarrow> exchange" where
  "usage_getSummary fetch this params =
     (let searchParams = new_URLSearchParams;
          searchParams = set_if_string searchParams ''start_date''
                           (opt_chain params DateRangeParams.start_date);
          searchParams = set_if_string searchParams ''end_date''
                           (opt_chain params DateRangeParams.end_date);
          endpoint = ''/sdk-usage-tracking/summary'' @ query_suffix searchParams
      in request fetch this endpoint no_options)"

definition usage_getBilling ::
  "fetch \<Rightarrow> CloudComputeSDK \<Rightarrow> DateRangeParams optional \<Rightarrow> exchange" where
  "usage_getBilling fetch this params =
     (let searchParams = new_URLSearchParams;
          searchParams = set_if_string searchParams ''start_date''
                           (opt_chain params DateRangeParams.start_date);
          searchParams = set_if_string searchParams ''end_date''
                           (opt_chain params DateRangeParams.end_date);
          endpoint = ''/sdk-usage-tracking/billing'' @ query_suffix searchParams
      in request fetch this endpoint no_options)"

subsection \<open>Every call of \<open>request\<close> by a public method\<close>

text \<open>One constructor for each public method, with the method's arguments; for
  \<open>deployments.create\<close> the argument is the body that \<open>JSON.stringify\<close> has returned, since
  a \<open>create\<close> whose argument does not serialize never reaches \<open>request\<close>.\<close>

datatype call =
    Providers_list
  | Providers_getRegions "string optional"
  | Providers_getTemplates "string optional"
  | Inventory_list "InventoryListParams optional"
  | Inventory_get string
  | Inventory_getByProvider string "GetByProviderParams optional"
  | Deployments_create "string option"
  | Deployments_list "DeploymentsListParams optional"
  | Deployments_get string
  | Usage_getLogs "UsageLogsParams optional"
  | Usage_getSummary "DateRangeParams optional"
  | Usage_getBilling "DateRangeParams optional"

fun invoke :: "fetch \<Rightarrow> CloudComputeSDK \<Rightarrow> call \<Rightarrow> exchange" where
  "invoke fetch this Providers_list = providers_list fetch this"
| "invoke fetch this (Providers_getRegions providerId) = providers_getRegions fetch this providerId"
| "invoke fetch this (Providers_getTemplates providerId) = providers_getTemplates fetch this providerId"
| "invoke fetch this (Inventory_list params) = inventory_list fetch this params"
| "invoke fetch this (Inventory_get inventoryId) = inventory_get fetch this inventoryId"
| "invoke fetch this (Inventory_getByProvider providerName params) =
     inventory_getByProvider fetch this providerName params"
| "invoke fetch this (Deployments_create text) = post_deployment fetch this text"
| "invoke fetch this (Deployments_list params) = deployments_list fetch this params"
| "invoke fetch this (Deployments_get deploymentId) = deployments_get fetch this deploymentId"
| "invoke fetch this (Usage_getLogs params) = usage_getLogs fetch this params"
| "invoke fetch this (Usage_getSummary params) = usage_getSummary fetch this params"
| "invoke fetch this (Usage_getBilling params) = usage_getBilling fetch this params"

section \<open>Vocabulary of the properties\<close>

text \<open>Stand-ins for the platform's \<open>fetch\<close>: one that always rejects with the given error,
  one that always fulfils with the given response.\<close>

definition fetch_rejects :: "js_error \<Rightarrow> fetch" where
  "fetch_rejects e args = Inl e"

definition fetch_fulfils :: "Response \<Rightarrow> fetch" where
  "fetch_fulfils response args = Inr response"

text \<open>The join of a base URL and a path has a doubled separator when the base ends in
  \<open>/\<close> and the path begins with \<open>/\<close>.\<close>

definition doubled_at_join :: "string \<Rightarrow> string \<Rightarrow> bool" where
  "doubled_at_join base path \<longleftrightarrow>
     base \<noteq> [] \<and> last base = CHR ''/'' \<and> path \<noteq> [] \<and> hd path = CHR ''/''"

definition endsWith :: "string \<Rightarrow> string \<Rightarrow> bool" where
  "endsWith s suf \<longleftrightarrow> length suf \<le> length s \<and> drop (length s - length suf) s = suf"

text \<open>The \<open>error\<close> field of a decoded body, when the body is an object that has the field
  and the field is a string.\<close>

fun error_field :: "jsvalue \<Rightarrow> string option" where
  "error_field (JObject props) =
     (case map_of props ''error'' of Some (JString e) \<Rightarrow> Some e | _ \<Rightarrow> None)"
| "error_field _ = None"

text \<open>An optional query parameter as a call-site declares it, and the two readings of
  "omitted": the falsy values (missing, \<open>undefined\<close>, \<open>null\<close>, \<open>+0\<close>, \<open>-0\<close>, \<open>NaN\<close>,
  the empty string), and the list that leaves \<open>NaN\<close> out.\<close>

datatype param = StringParam "string optional" | NumberParam "number optional"

fun param_falsy :: "param \<Rightarrow> bool" where
  "param_falsy (StringParam (Given s)) = (s = [])"
| "param_falsy (NumberParam (Given n)) = (n = Integer 0 \<or> n = NegZero \<or> n = NaN)"
| "param_falsy _ = True"

fun param_absent_null_zero_or_empty :: "param \<Rightarrow> bool" where
  "param_absent_null_zero_or_empty (StringParam (Given s)) = (s = [])"
| "param_absent_null_zero_or_empty (NumberParam (Given n)) = (n = Integer 0 \<or> n = NegZero)"
| "param_absent_null_zero_or_empty _ = True"

fun param_text :: "param \<Rightarrow> string" where
  "param_text (StringParam (Given s)) = s"
| "param_text (NumberParam (Given n)) = Number_toString n"
| "param_text _ = []"

text \<open>The query string that a list of declared parameters stands for: in the declared
  order, the parameters that are not omitted, each as \<open>name=value\<close> with the value
  form-urlencoded, joined by \<open>&\<close>.\<close>

definition query_string :: "(param \<Rightarrow> bool) \<Rightarrow> (string \<times> param) list \<Rightarrow> string" where
  "query_string omitted declared =
     join ''&'' (map (\<lambda>(name, v). name @ ''='' @ urlencode (param_text v))
                  (filter (\<lambda>(name, v). \<not> omitted v) declared))"

text \<open>A path followed by a query string, the \<open>?\<close> only before a non-empty one.\<close>

definition with_query :: "string \<Rightarrow> string \<Rightarrow> string" where
  "with_query path q = (if q = [] then path else path @ ''?'' @ q)"

definition inventory_list_declared :: "InventoryListParams optional \<Rightarrow> (string \<times> param) list" where
  "inventory_list_declared params =
     [(''provider_id'', StringParam (opt_chain params InventoryListParams.provider_id)),
      (''region_id'', StringParam (opt_chain params InventoryListParams.region_id)),
      (''instance_type'', StringParam (opt_chain params InventoryListParams.instance_type)),
      (''min_vcpu'', NumberParam (opt_chain params InventoryListParams.min_vcpu)),
      (''max_price_usd_hr'', NumberParam (opt_chain params InventoryListParams.max_price_usd_hr)),
      (''accel_model'', StringParam (opt_chain params InventoryListParams.accel_model)),
      (''availability_type'', StringParam (opt_chain params InventoryListParams.availability_type)),
      (''limit'', NumberParam (opt_chain params InventoryListParams.limit)),
      (''offset'', NumberParam (opt_chain params InventoryListParams.offset))]"

definition getByProvider_declared :: "GetByProviderParams optional \<Rightarrow> (string \<times> param) list" where
  "getByProvider_declared params =
     [(''region_code'', StringParam (opt_chain params GetByProviderParams.region_code)),
      (''instance_type'', StringParam (opt_chain params GetByProviderParams.instance_type)),
      (''min_vcpu'', NumberParam (opt_chain params GetByProviderParams.min_vcpu)),
      (''max_price_usd_hr'', NumberParam (opt_chain params GetByProviderParams.max_price_usd_hr)),
      (''limit'', NumberParam (opt_chain params GetByProviderParams.limit)),
      (''offset'', NumberParam (opt_chain params GetByProviderParams.offset))]"

text \<open>\<open>if (v) searchParams.set(name, ...)\<close> for either kind of parameter.\<close>

fun set_if :: "URLSearchParams \<Rightarrow> string \<Rightarrow> param \<Rightarrow> URLSearchParams" where
  "set_if searchParams name (StringParam v) = set_if_string searchParams name v"
| "set_if searchParams name (NumberParam v) = set_if_number searchParams name v"

text \<open>An inventory filter with no property set, and the one of the end-to-end scenario,
  \<open>{min_vcpu: 4, max_price_usd_hr: 1.0, limit: 20}\<close>.\<close>

definition no_filter :: InventoryListParams where
  "no_filter =
     \<lparr> InventoryListParams.provider_id = Undefined,
       InventoryListParams.region_id = Undefined,
       InventoryListParams.instance_type = Undefined,
       InventoryListParams.min_vcpu = Undefined,
       InventoryListParams.max_price_usd_hr = Undefined,
       InventoryListParams.accel_model = Undefined,
       InventoryListParams.availability_type = Undefined,
       InventoryListParams.limit = Undefined,
       InventoryListParams.offset = Undefined \<rparr>"

definition scenario_filter :: InventoryListParams where
  "scenario_filter =
     no_filter \<lparr> InventoryListParams.min_vcpu := Given (Integer 4),
                 InventoryListParams.max_price_usd_hr := Given (Integer 1),
                 InventoryListParams.limit := Given (Integer 20) \<rparr>"

text \<open>How a call of \<open>deployments.create\<close> settles, and the requests it has issued.\<close>

definition settles :: "js_error + exchange \<Rightarrow> js_error + jsvalue" where
  "settles r = (case r of Inl e \<Rightarrow> Inl e | Inr x \<Rightarrow> outcome x)"

definition requests :: "js_error + exchange \<Rightarrow> fetch_args list" where
  "requests r = (case r of Inl e \<Rightarrow> [] | Inr x \<Rightarrow> [issued x])"

text \<open>A value that \<open>JSON.stringify\<close> cannot serialize: a BigInt or a circular reference,
  or an array, an object or a \<open>toJSON\<close> result that holds one.\<close>

fun unserializable :: "jsvalue \<Rightarrow> bool" where
  "unserializable (JBigInt n) = True"
| "unserializable JCircular = True"
| "unserializable (JArray xs) = list_ex unserializable xs"
| "unserializable (JObject ps) = list_ex (\<lambda>(k, v). unserializable v) ps"
| "unserializable (JToJSON v) = (if is_JToJSON v then False else unserializable v)"
| "unserializable _ = False"

text \<open>A value that has no JSON text, so that \<open>JSON.stringify\<close> leaves its property out:
  \<open>undefined\<close>, a function or a symbol, also as the result of \<open>toJSON\<close>.\<close>

fun left_out :: "jsvalue \<Rightarrow> bool" where
  "left_out JUndefined = True"
| "left_out JFunction = True"
| "left_out (JToJSON v) = (v = JUndefined \<or> v = JFunction)"
| "left_out _ = False"

text \<open>The members that \<open>JSON.stringify\<close> writes for an object: one per property whose
  value has a JSON text, in the order of \<open>property_order\<close>.\<close>

definition members :: "(string \<times> jsvalue) list \<Rightarrow> (string \<times> jsvalue) list" where
  "members props = filter (\<lambda>p. \<not> left_out (snd p)) (property_order props)"

definition member_text :: "string \<times> jsvalue \<Rightarrow> string" where
  "member_text p =
     QuoteJSONString (fst p) @ '':'' @
       (case SerializeJSONProperty (snd p) of Inr (Some t) \<Rightarrow> t | _ \<Rightarrow> [])"

text \<open>The pairs that a list of declared parameters leaves in \<open>searchParams\<close>.\<close>

definition entries :: "(string \<times> param) list \<Rightarrow> URLSearchParams" where
  "entries declared =
     map (\<lambda>(name, v). (name, param_text v)) (filter (\<lambda>(name, v). \<not> param_falsy v) declared)"

text \<open>A header of an issued request, by name.\<close>

definition header_of :: "fetch_args \<Rightarrow> string \<Rightarrow> string option" where
  "header_of args name = (case headers (init args) of Some hs \<Rightarrow> map_of hs name | None \<Rightarrow> None)"

section \<open>Auxiliary facts\<close>

lemma URLSearchParams_set_fresh:
  "name \<notin> fst ` set sp \<Longrightarrow> URLSearchParams_set sp name v = sp @ [(name, v)]"
  by (induction sp) auto

lemma set_if_fresh:
  "name \<notin> fst ` set sp \<Longrightarrow>
   set_if sp name p = sp @ (if param_falsy p then [] else [(name, param_text p)])"
proof (cases p)
  case (StringParam v)
  assume "name \<notin> fst ` set sp"
  then show ?thesis using StringParam
    by (cases v) (simp_all add: set_if_string_def URLSearchParams_set_fresh)
next
  case (NumberParam v)
  assume fresh: "name \<notin> fst ` set sp"
  show ?thesis
  proof (cases v)
    case (Given n)
    then show ?thesis using NumberParam fresh
      by (cases n) (simp_all add: set_if_number_def URLSearchParams_set_fresh)
  qed (simp_all add: NumberParam set_if_number_def)
qed

lemma foldl_set_if:
  "distinct (map fst declared) \<Longrightarrow> fst ` set sp \<inter> fst ` set declared = {} \<Longrightarrow>
   foldl (\<lambda>acc (name, v). set_if acc name v) sp declared = sp @ entries declared"
proof (induction declared arbitrary: sp)
  case Nil
  then show ?case by (simp add: entries_def)
next
  case (Cons d ds)
  obtain name v where d: "d = (name, v)" by (cases d)
  have fresh: "name \<notin> fst ` set sp" using Cons.prems(2) d by auto
  let ?sp' = "sp @ (if param_falsy v then [] else [(name, param_text v)])"
  have "fst ` set ?sp' \<inter> fst ` set ds = {}"
    using Cons.prems d by (auto simp: image_iff)
  moreover have "distinct (map fst ds)" using Cons.prems(1) by simp
  ultimately have "foldl (\<lambda>acc (name, v). set_if acc name v) ?sp' ds = ?sp' @ entries ds"
    by (rule Cons.IH[rotated])
  then show ?case
    by (simp add: d set_if_fresh[OF fresh] entries_def)
qed

lemma join_Cons: "join sep (x # xs) = x @ (if xs = [] then [] else sep @ join sep xs)"
  by (cases xs) simp_all

lemma toString_entries:
  "(\<forall>d \<in> set declared. urlencode (fst d) = fst d) \<Longrightarrow>
   URLSearchParams_toString (entries declared) = query_string param_falsy declared"
  unfolding URLSearchParams_toString_def entries_def query_string_def
  by (rule arg_cong[where f="join ''&''"]) (auto simp: comp_def split: prod.splits)


lemma issued_request:
  "issued (request fetch this ep opts) =
     \<lparr> url = this_baseUrl this @ ep,
       init = opts \<lparr> headers := Some (spread [(''Content-Type'', ''application/json''),
                                   (''x-api-key'', this_apiKey this)] (headers opts)) \<rparr> \<rparr>"
  by (simp add: request_def Let_def)

lemma outcome_request:
  "outcome (request fetch this ep opts) =
     (case fetch (issued (request fetch this ep opts)) of
        Inl e \<Rightarrow> Inl e
      | Inr response \<Rightarrow>
          if ok response then Inr (parsed_body response)
          else Inl (new_Error (failure_message response (parsed_body response))))"
  by (simp add: request_def Let_def split: sum.splits)

lemma inventory_list_as_fold:
  "inventory_list fetch this params =
     request fetch this
       (''/sdk-inventory'' @
          query_suffix (foldl (\<lambda>acc (name, v). set_if acc name v) [] (inventory_list_declared params)))
       no_options"
  by (simp add: inventory_list_def inventory_list_declared_def Let_def new_URLSearchParams_def)

lemma names_inventory_list:
  "\<forall>d \<in> set (inventory_list_declared params). urlencode (fst d) = fst d"
  by (simp add: inventory_list_declared_def urlencode_def urlencode_byte_def urlencoded_unreserved_def)

lemma query_suffix_with_query: "p @ query_suffix sp = with_query p (URLSearchParams_toString sp)"
  by (simp add: query_suffix_def with_query_def)

lemma inventory_list_endpoint:
  "inventory_list fetch this params =
     request fetch this
       (with_query ''/sdk-inventory'' (query_string param_falsy (inventory_list_declared params)))
       no_options"
proof -
  have "distinct (map fst (inventory_list_declared params))"
    by (simp add: inventory_list_declared_def)
  then have "foldl (\<lambda>acc (name, v). set_if acc name v) [] (inventory_list_declared params)
      = entries (inventory_list_declared params)"
    using foldl_set_if[of "inventory_list_declared params" "[]"] by simp
  then show ?thesis
    by (simp only: inventory_list_as_fold query_suffix_with_query
        toString_entries[OF names_inventory_list])
qed


lemma url_issued_request: "url (issued (request fetch this ep opts)) = this_baseUrl this @ ep"
  by (simp add: issued_request)

lemma headers_issued_request:
  "headers opts = None \<Longrightarrow>
   headers (init (issued (request fetch this ep opts))) =
     Some [(''Content-Type'', ''application/json''), (''x-api-key'', this_apiKey this)]"
  by (simp add: issued_request spread_def)

lemma invoke_request:
  "\<exists>ep opts. (\<forall>fetch this. invoke fetch this c = request fetch this ep opts) \<and> headers opts = None"
  by (cases c; simp add: providers_list_def providers_getRegions_def providers_getTemplates_def
      inventory_list_def inventory_get_def inventory_getByProvider_def post_deployment_def
      deployments_list_def deployments_get_def usage_getLogs_def usage_getSummary_def
      usage_getBilling_def Let_def; intro exI conjI allI; (rule refl)?; simp add: no_options_def)

lemma getByProvider_as_fold:
  "inventory_getByProvider fetch this providerName params =
     request fetch this
       (''/sdk-inventory/provider/'' @ providerName @
          query_suffix (foldl (\<lambda>acc (name, v). set_if acc name v) [(''provider'', providerName)]
             (getByProvider_declared params)))
       no_options"
  by (simp add: inventory_getByProvider_def getByProvider_declared_def Let_def new_URLSearchParams_def)

lemma names_getByProvider:
  "\<forall>d \<in> set (getByProvider_declared params). urlencode (fst d) = fst d"
  by (simp add: getByProvider_declared_def urlencode_def urlencode_byte_def urlencoded_unreserved_def)

lemma join_empty_iff: "\<forall>x \<in> set xs. x \<noteq> [] \<Longrightarrow> join sep xs = [] \<longleftrightarrow> xs = []"
  by (cases xs) (simp_all add: join_Cons)

lemma entries_empty_iff: "entries declared = [] \<longleftrightarrow> query_string param_falsy declared = []"
proof -
  let ?xs = "map (\<lambda>(name, v). name @ ''='' @ urlencode (param_text v))
               (filter (\<lambda>(name, v). \<not> param_falsy v) declared)"
  have "\<forall>x \<in> set ?xs. x \<noteq> []" by auto
  then have "join ''&'' ?xs = [] \<longleftrightarrow> ?xs = []" by (rule join_empty_iff)
  then show ?thesis by (simp add: entries_def query_string_def)
qed

lemma getByProvider_endpoint:
  "inventory_getByProvider fetch this providerName params =
     request fetch this
       (''/sdk-inventory/provider/'' @ providerName @ ''?provider='' @ urlencode providerName @
          (if query_string param_falsy (getByProvider_declared params) = [] then []
           else ''&'' @ query_string param_falsy (getByProvider_declared params)))
       no_options"
proof -
  let ?d = "getByProvider_declared params"
  have "distinct (map fst ?d)" and "fst ` set [(''provider'', providerName)] \<inter> fst ` set ?d = {}"
    by (simp_all add: getByProvider_declared_def)
  then have fold: "foldl (\<lambda>acc (name, v). set_if acc name v) [(''provider'', providerName)] ?d
      = (''provider'', providerName) # entries ?d"
    using foldl_set_if[of ?d "[(''provider'', providerName)]"] by simp
  have enc: "urlencode ''provider'' = ''provider''"
    by (simp add: urlencode_def urlencode_byte_def urlencoded_unreserved_def)
  have "URLSearchParams_toString ((''provider'', providerName) # entries ?d) =
      ''provider='' @ urlencode providerName @
        (if query_string param_falsy ?d = [] then [] else ''&'' @ query_string param_falsy ?d)"
    using toString_entries[OF names_getByProvider, of params] entries_empty_iff[of ?d]
    by (simp add: URLSearchParams_toString_def join_Cons enc)
  then show ?thesis
    by (simp add: getByProvider_as_fold fold query_suffix_def)
qed


lemma replace_trailing_slash_snoc: "replace_trailing_slash (b @ ''/'') = b"
  by (simp add: replace_trailing_slash_def)

lemma endsWith_slash: "endsWith s ''/'' \<longleftrightarrow> s \<noteq> [] \<and> last s = CHR ''/''"
proof (cases s rule: rev_cases)
  case Nil
  then show ?thesis by (simp add: endsWith_def)
next
  case (snoc ys y)
  then show ?thesis by (simp add: endsWith_def)
qed

lemma endsWith_two_slashes:
  "endsWith s ''//'' \<longleftrightarrow> s \<noteq> [] \<and> last s = CHR ''/'' \<and> butlast s \<noteq> [] \<and> last (butlast s) = CHR ''/''"
proof (cases s rule: rev_cases)
  case Nil
  then show ?thesis by (simp add: endsWith_def)
next
  case (snoc ys y)
  note s = snoc
  show ?thesis
  proof (cases ys rule: rev_cases)
    case Nil
    then show ?thesis by (simp add: endsWith_def s)
  next
    case (snoc zs z)
    then show ?thesis by (auto simp add: endsWith_def s butlast_append)
  qed
qed

lemma url_invoke_base:
  "this_baseUrl this = this_baseUrl this' \<Longrightarrow>
   url (issued (invoke fetch this c)) = url (issued (invoke fetch' this' c))"
proof -
  assume same: "this_baseUrl this = this_baseUrl this'"
  obtain ep opts where "\<forall>fetch this. invoke fetch this c = request fetch this ep opts"
    using invoke_request[of c] by blast
  then show ?thesis by (simp add: url_issued_request same)
qed

lemma outcome_invoke:
  "outcome (invoke fetch this c) =
     (case fetch (issued (invoke fetch this c)) of
        Inl e \<Rightarrow> Inl e
      | Inr response \<Rightarrow>
          if ok response then Inr (parsed_body response)
          else Inl (new_Error (failure_message response (parsed_body response))))"
proof -
  obtain ep opts where "\<forall>fetch this. invoke fetch this c = request fetch this ep opts"
    using invoke_request[of c] by blast
  then show ?thesis by (simp add: outcome_request)
qed

lemma failure_message_error_field:
  "failure_message response parsed =
     (case error_field parsed of
        Some e \<Rightarrow> e
      | None \<Rightarrow> ''HTTP '' @ decimal (Response.status response))"
  by (cases parsed)
    (simp_all add: failure_message_def get_property_def Let_def
      split: option.splits jsvalue.splits)

lemma decimal_small: "n < 10 \<Longrightarrow> decimal n = [digit_char n]"
  by (subst decimal.simps) simp

lemma decimal_step: "10 \<le> n \<Longrightarrow> decimal n = decimal (n div 10) @ [digit_char (n mod 10)]"
  by (subst decimal.simps) simp

lemmas decimal_eval = decimal_small decimal_step digit_char_def

lemma urlencode_digits: "urlencode ''4'' = ''4'' \<and> urlencode ''1'' = ''1'' \<and> urlencode ''20'' = ''20''"
  by (simp add: urlencode_def urlencode_byte_def urlencoded_unreserved_def)

lemma scenario_query:
  "query_string param_falsy (inventory_list_declared (Given scenario_filter))
     = ''min_vcpu=4&max_price_usd_hr=1&limit=20''"
  by (simp add: query_string_def inventory_list_declared_def scenario_filter_def no_filter_def
      opt_chain_def decimal_eval urlencode_digits)

lemma urlencode_unreserved:
  "\<forall>c \<in> set s. urlencoded_unreserved c \<Longrightarrow> urlencode s = s"
proof (induction s)
  case Nil
  then show ?case by (simp add: urlencode_def)
next
  case (Cons c cs)
  then have "urlencoded_unreserved c" and "urlencode cs = cs" by simp_all
  moreover from \<open>urlencoded_unreserved c\<close> have "c \<noteq> CHR '' ''"
    by (auto simp: urlencoded_unreserved_def)
  ultimately show ?case by (simp add: urlencode_def urlencode_byte_def)
qed

lemma getByProvider_url:
  "url (issued (inventory_getByProvider fetch this providerName params))
     = this_baseUrl this @ ''/sdk-inventory/provider/'' @ providerName @
         ''?provider='' @ urlencode providerName @
         (if query_string param_falsy (getByProvider_declared params) = [] then []
          else ''&'' @ query_string param_falsy (getByProvider_declared params))"
  by (simp add: getByProvider_endpoint url_issued_request)

lemma getByProvider_no_params:
  "query_string param_falsy (getByProvider_declared Undefined) = []"
  by (simp add: query_string_def getByProvider_declared_def opt_chain_def)

lemma urlencode_reserved: "urlencode ''a/b?c'' = ''a%2Fb%3Fc''"
  by (simp add: urlencode_def urlencode_byte_def urlencoded_unreserved_def digit_char_def)

lemma create_reaches_request:
  "JSON_stringify params = Inr text \<Longrightarrow>
   deployments_create fetch this params = Inr (invoke fetch this (Deployments_create text))"
  by (simp add: deployments_create_def)

lemma create_throws_before_request:
  "JSON_stringify params = Inl e \<Longrightarrow> deployments_create fetch this params = Inl e"
  by (simp add: deployments_create_def)

lemma first_throw_isl: "isl (first_throw rs) \<longleftrightarrow> list_ex isl rs"
  by (induction rs rule: first_throw.induct) (auto split: sum.splits)

lemma first_throw_Inr: "\<forall>r \<in> set rs. \<not> isl r \<Longrightarrow> first_throw rs = Inr (map projr rs)"
  by (induction rs rule: first_throw.induct) auto

lemma insort_key_payload:
  "insort_key fst (i, g p) (map (\<lambda>(j, q). (j, g q)) xs)
     = map (\<lambda>(j, q). (j, g q)) (insort_key fst (i, p) xs)"
  by (induction xs) auto

lemma sort_key_payload:
  "sort_key fst (map (\<lambda>(j, q). (j, g q)) xs) = map (\<lambda>(j, q). (j, g q)) (sort_key fst xs)"
proof (induction xs)
  case Nil
  then show ?case by simp
next
  case (Cons x xs)
  obtain i p where x: "x = (i, p)" by (cases x)
  show ?case using Cons.IH by (simp add: x insort_key_payload)
qed

lemma property_order_values:
  fixes f :: "'v \<Rightarrow> 'w" and ps :: "(string \<times> 'v) list"
  shows "property_order (map (\<lambda>(k, v). (k, f v)) ps)
     = map (\<lambda>(k, v). (k, f v)) (property_order ps)"
proof -
  let ?g = "\<lambda>(k, v). (k, f v)"
  let ?ix = "\<lambda>p. case array_index (fst p) of Some i \<Rightarrow> [(i, p)] | None \<Rightarrow> []"
  have fst_g: "fst (?g p) = fst p" for p :: "string \<times> 'v"
    by (cases p) simp
  have ix: "concat (map ?ix (map ?g ps)) = map (\<lambda>(j, q). (j, ?g q)) (concat (map ?ix ps))"
    by (induction ps) (auto simp: fst_g split: option.splits)
  have fl: "filter (\<lambda>p. array_index (fst p) = None) (map ?g ps)
      = map ?g (filter (\<lambda>p. array_index (fst p) = None) ps)"
    by (induction ps) (auto simp: fst_g)
  have "map snd (map (\<lambda>(j, q). (j, ?g q)) ys) = map ?g (map snd ys)"
    for ys :: "(nat \<times> string \<times> 'v) list"
    by (induction ys) auto
  then show ?thesis
    unfolding property_order_def ix fl sort_key_payload by simp
qed

lemma indexed_member:
  "(i, q) \<in> set (case array_index (fst p) of Some i \<Rightarrow> [(i, p)] | None \<Rightarrow> [])
     \<longleftrightarrow> q = p \<and> array_index (fst p) = Some i"
  by (auto split: option.splits)

lemma set_property_order: "set (property_order ps) = set ps"
proof -
  let ?ix = "\<lambda>p. case array_index (fst p) of Some i \<Rightarrow> [(i, p)] | None \<Rightarrow> []"
  have "q \<in> snd ` set (concat (map ?ix ps)) \<longleftrightarrow> q \<in> set ps \<and> array_index (fst q) \<noteq> None" for q
  proof
    assume "q \<in> snd ` set (concat (map ?ix ps))"
    then obtain i p where "p \<in> set ps" and "(i, q) \<in> set (?ix p)" by auto
    then have "p \<in> set ps" and "q = p" and "array_index (fst p) = Some i"
      using indexed_member[of i q p] by blast+
    then show "q \<in> set ps \<and> array_index (fst q) \<noteq> None"
      by simp
  next
    assume "q \<in> set ps \<and> array_index (fst q) \<noteq> None"
    then obtain i where "q \<in> set ps" and "array_index (fst q) = Some i" by auto
    then have "(i, q) \<in> set (concat (map ?ix ps))"
      by (auto simp: indexed_member intro!: bexI[of _ q])
    then show "q \<in> snd ` set (concat (map ?ix ps))" by force
  qed
  then show ?thesis
    by (auto simp: property_order_def)
qed

lemma isl_keyed: "isl (keyed p) \<longleftrightarrow> isl (snd p)"
  by (cases p rule: keyed.cases) simp_all

lemma SerializeJSONProperty_throws: "isl (SerializeJSONProperty v) \<longleftrightarrow> unserializable v"
proof (induction v rule: SerializeJSONProperty.induct)
  case (10 xs)
  have "isl (first_throw (map SerializeJSONProperty xs)) \<longleftrightarrow> list_ex unserializable xs"
    using 10 by (simp add: first_throw_isl list_ex_iff)
  then show ?case by (simp split: sum.splits) (metis isl_def sum.disc(2))
next
  case (11 ps)
  let ?rs = "map (\<lambda>(k, v). (k, SerializeJSONProperty v)) ps"
  have "isl (first_throw (map keyed (property_order ?rs)))
      \<longleftrightarrow> (\<exists>p \<in> set (property_order ?rs). isl (snd p))"
    by (simp add: first_throw_isl list_ex_iff isl_keyed)
  also have "\<dots> \<longleftrightarrow> (\<exists>p \<in> set ps. isl (SerializeJSONProperty (snd p)))"
    by (force simp: set_property_order)
  also have "\<dots> \<longleftrightarrow> list_ex (\<lambda>(k, v). unserializable v) ps"
  proof -
    have "isl (SerializeJSONProperty (snd p)) = unserializable (snd p)" if "p \<in> set ps" for p
      using that 11[of p "fst p" "snd p"] by simp
    then show ?thesis by (simp add: list_ex_iff case_prod_beta)
  qed
  finally show ?case by (simp split: sum.splits) (metis isl_def sum.disc(2))
qed (simp_all add: cannot_serialize_BigInt_def circular_structure_def)

lemma SerializeJSONProperty_undefined: "SerializeJSONProperty v = Inr None \<longleftrightarrow> left_out v"
proof (cases v)
  case (JToJSON w)
  then show ?thesis by (cases w) (simp_all split: sum.splits)
qed (simp_all split: sum.splits)


lemma object_members:
  "\<forall>p \<in> set qs. \<not> unserializable (snd p) \<Longrightarrow>
   first_throw (map keyed (map (\<lambda>(k, v). (k, SerializeJSONProperty v)) qs)) = Inr ts \<Longrightarrow>
   concat (map member ts)
     = map member_text (filter (\<lambda>p. \<not> left_out (snd p)) qs)"
proof (induction qs arbitrary: ts)
  case Nil
  then show ?case by simp
next
  case (Cons q qs)
  obtain k v where q: "q = (k, v)" by (cases q)
  from Cons.prems(1) have "\<not> isl (SerializeJSONProperty v)"
    by (simp add: q SerializeJSONProperty_throws)
  then obtain t where t: "SerializeJSONProperty v = Inr t"
    by (cases "SerializeJSONProperty v") simp_all
  from Cons.prems(2) obtain ts' where
    ts': "first_throw (map keyed (map (\<lambda>(k, v). (k, SerializeJSONProperty v)) qs)) = Inr ts'"
    and ts: "ts = (k, t) # ts'"
    by (auto simp: q t split: sum.splits)
  have IH: "concat (map member ts')
     = map member_text (filter (\<lambda>p. \<not> left_out (snd p)) qs)"
    using Cons.IH[OF _ ts'] Cons.prems(1) by simp
  show ?case
  proof (cases t)
    case None
    then have "left_out v" using t SerializeJSONProperty_undefined[of v] by simp
    then show ?thesis by (simp add: ts q None IH)
  next
    case (Some u)
    then have "\<not> left_out v" using t SerializeJSONProperty_undefined[of v] by simp
    then show ?thesis by (simp add: ts q Some IH member_text_def t)
  qed
qed

lemma JSON_stringify_object:
  assumes "\<not> unserializable (JObject ps)"
  shows "JSON_stringify (JObject ps)
     = Inr (Some (''{'' @ join '','' (map member_text (members ps)) @ ''}''))"
proof -
  let ?rs = "map keyed (map (\<lambda>(k, v). (k, SerializeJSONProperty v)) (property_order ps))"
  have clean: "\<forall>p \<in> set (property_order ps). \<not> unserializable (snd p)"
    using assms by (auto simp: set_property_order list_ex_iff)
  then have "\<not> isl (first_throw ?rs)"
    by (auto simp: first_throw_isl list_ex_iff isl_keyed SerializeJSONProperty_throws)
  then obtain ts where ts: "first_throw ?rs = Inr ts"
    by (cases "first_throw ?rs") simp_all
  from object_members[OF clean ts] ts show ?thesis
    by (simp add: JSON_stringify_def property_order_values members_def)
qed

lemma array_index_names:
  "array_index ''cloud_inventory_id'' = None" "array_index ''rental_duration_hours'' = None"
  "array_index ''ssh_public_key'' = None" "array_index ''tags'' = None"
  "array_index ''b'' = None" "array_index ''n'' = None" "array_index ''f'' = None" "array_index ''created'' = None"
  "array_index ''2'' = Some 2" "array_index ''1'' = Some 1"
  by (simp_all add: array_index_def is_digit_def decimal_value_def)

lemma scenario_body:
  \<open>JSON_stringify (JObject [(''cloud_inventory_id'', JString ''abc''),
                            (''rental_duration_hours'', JNumber (Integer 24))])
    = Inr (Some ''{"cloud_inventory_id":"abc","rental_duration_hours":24}'')\<close>
  by (simp add: JSON_stringify_def property_order_def array_index_names QuoteJSONString_def
      quote_byte_def decimal_eval)

lemma tagged_body:
  \<open>JSON_stringify (JObject [(''cloud_inventory_id'', JString ''abc''),
                            (''ssh_public_key'', JUndefined),
                            (''tags'', JObject [(''b'', JNumber (Integer 1)),
                                                (''2'', JString ''x''),
                                                (''1'', JString ''y''),
                                                (''f'', JFunction),
                                                (''created'', JToJSON (JString ''2025-01-01T00:00:00.000Z''))])])
    = Inr (Some ''{"cloud_inventory_id":"abc","tags":{"1":"y","2":"x","b":1,"created":"2025-01-01T00:00:00.000Z"}}'')\<close>
  by (simp add: JSON_stringify_def property_order_def array_index_names QuoteJSONString_def
      quote_byte_def decimal_eval)

lemma BigInt_body:
  "JSON_stringify (JObject [(''cloud_inventory_id'', JString ''abc''),
                            (''tags'', JObject [(''n'', JBigInt 1)])])
    = Inl (JsError ''TypeError'' ''Do not know how to serialize a BigInt'')"
  by (simp add: JSON_stringify_def property_order_def array_index_names cannot_serialize_BigInt_def)

section \<open>Base URL normalization\<close>

text \<open>
  C4. Constructing the client strips exactly one trailing path separator from the base
  URL when there is one and leaves the base URL alone otherwise; the request URL is the
  normalized base URL followed by the endpoint path. For a path that begins with a
  separator, the join has a doubled separator exactly when the configured base URL ends
  in two separators, so it has none for every base URL that does not end in \<open>//\<close>.
\<close>

theorem constructor_strips_one_separator:
  "this_baseUrl (constructor \<lparr> baseUrl = b @ ''/'', apiKey = k \<rparr>) = b
   \<and> (\<not> endsWith (baseUrl config) ''/'' \<longrightarrow> this_baseUrl (constructor config) = baseUrl config)
   \<and> url (issued (request fetch (constructor config) (CHR ''/'' # rest) opts))
       = this_baseUrl (constructor config) @ CHR ''/'' # rest
   \<and> (doubled_at_join (this_baseUrl (constructor config)) (CHR ''/'' # rest)
        \<longleftrightarrow> endsWith (baseUrl config) ''//'')"
  by (simp add: constructor_def replace_trailing_slash_snoc url_issued_request
      endsWith_slash endsWith_two_slashes doubled_at_join_def replace_trailing_slash_def)

theorem constructor_strips_one_separator_witness:
  "\<not> endsWith ''https://host/v1'' ''/''
   \<and> this_baseUrl (constructor \<lparr> baseUrl = ''https://host/v1'', apiKey = ''k'' \<rparr>) = ''https://host/v1''
   \<and> this_baseUrl (constructor \<lparr> baseUrl = ''https://host/v1/'', apiKey = ''k'' \<rparr>) = ''https://host/v1''
   \<and> \<not> doubled_at_join
          (this_baseUrl (constructor \<lparr> baseUrl = ''https://host/v1/'', apiKey = ''k'' \<rparr>))
          ''/sdk-providers''"
  using constructor_strips_one_separator
    [of "''https://host/v1''" "''k''" "\<lparr> baseUrl = ''https://host/v1'', apiKey = ''k'' \<rparr>"]
    constructor_strips_one_separator
    [of "''https://host/v1''" "''k''" "\<lparr> baseUrl = ''https://host/v1/'', apiKey = ''k'' \<rparr>"
        _ "''sdk-providers''"]
  by (simp add: endsWith_def)

text \<open>
  The unrestricted reading fails: a base URL that ends in two separators keeps one of
  them, and the join with \<open>/sdk-providers\<close> has a doubled separator.
\<close>

theorem doubled_separator_counterexample:
  "hd ''/sdk-providers'' = CHR ''/''
   \<and> this_baseUrl (constructor \<lparr> baseUrl = ''https://host/v1//'', apiKey = ''k'' \<rparr>) = ''https://host/v1/''
   \<and> doubled_at_join
        (this_baseUrl (constructor \<lparr> baseUrl = ''https://host/v1//'', apiKey = ''k'' \<rparr>))
        ''/sdk-providers''
   \<and> url (issued (providers_list (fetch_rejects (JsError ''TypeError'' ''fetch failed''))
            (constructor \<lparr> baseUrl = ''https://host/v1//'', apiKey = ''k'' \<rparr>)))
       = ''https://host/v1//sdk-providers''"
  by (simp add: constructor_def replace_trailing_slash_def doubled_at_join_def
      providers_list_def url_issued_request)

text \<open>
  C5. For every call of every public method, the client constructed with
  \<open>https://host/v1/\<close> and the one constructed with \<open>https://host/v1\<close> issue requests
  to the same URL, byte for byte.
\<close>

theorem trailing_separator_same_urls:
  "url (issued (invoke fetch (constructor \<lparr> baseUrl = ''https://host/v1/'', apiKey = k \<rparr>) c))
   = url (issued (invoke fetch' (constructor \<lparr> baseUrl = ''https://host/v1'', apiKey = k' \<rparr>) c))"
  by (rule url_invoke_base) (simp add: constructor_def replace_trailing_slash_def)

section \<open>Fixed headers\<close>

text \<open>
  C6. For every public method of every resource group (none of them passes extra
  headers), the issued request carries exactly the two fixed headers: \<open>Content-Type\<close>
  equal to \<open>application/json\<close> and \<open>x-api-key\<close> equal to the configured API key.
\<close>

theorem fixed_headers_on_every_request:
  "headers (init (issued (invoke fetch (constructor config) c)))
     = Some [(''Content-Type'', ''application/json''), (''x-api-key'', apiKey config)]
   \<and> header_of (issued (invoke fetch (constructor config) c)) ''x-api-key'' = Some (apiKey config)
   \<and> header_of (issued (invoke fetch (constructor config) c)) ''Content-Type''
       = Some ''application/json''"
proof -
  obtain ep opts where "\<forall>fetch this. invoke fetch this c = request fetch this ep opts"
    and "headers opts = None"
    using invoke_request[of c] by blast
  then show ?thesis
    by (simp add: headers_issued_request header_of_def constructor_def)
qed

section \<open>Responses and errors\<close>

text \<open>
  C1. For every call whose response has a status outside 200..299, the call throws an
  \<open>Error\<close> whose message is the \<open>error\<close> field of the decoded body when the body is an
  object with that field and the field is a string, and \<open>HTTP\<close>, a space and the decimal
  status otherwise. The decoded body is the parsed JSON, or the synthetic parse-failure
  object when the body does not decode. Status 400 with body
  \<open>{error: 'Insufficient wallet balance'}\<close> gives exactly that message; status 500 with
  a decoded body that has no string \<open>error\<close> field gives exactly \<open>HTTP 500\<close>.
\<close>

theorem non_ok_status_throws_error_message:
  "(fetch (issued (invoke fetch this c)) = Inr response
      \<and> \<not> (200 \<le> Response.status response \<and> Response.status response \<le> 299)
    \<longrightarrow> outcome (invoke fetch this c) =
          Inl (JsError ''Error''
                 (case error_field (parsed_body response) of
                    Some e \<Rightarrow> e
                  | None \<Rightarrow> ''HTTP '' @ decimal (Response.status response))))
   \<and> outcome (invoke
         (fetch_fulfils \<lparr> Response.status = 400,
            json = Inr (JObject [(''error'', JString ''Insufficient wallet balance'')]) \<rparr>)
         this c)
       = Inl (JsError ''Error'' ''Insufficient wallet balance'')
   \<and> (error_field v = None
      \<longrightarrow> outcome (invoke (fetch_fulfils \<lparr> Response.status = 500, json = Inr v \<rparr>) this c)
            = Inl (JsError ''Error'' ''HTTP 500''))"
  by (simp add: outcome_invoke failure_message_error_field ok_def new_Error_def
      fetch_fulfils_def parsed_body_def decimal_eval)

theorem non_ok_status_throws_error_message_witness:
  "outcome (invoke
      (fetch_fulfils \<lparr> Response.status = 404, json = Inr (JObject [(''error'', JString ''Not found'')]) \<rparr>)
      \<lparr> this_baseUrl = ''https://host/v1'', this_apiKey = ''k'' \<rparr> (Inventory_get ''inv-1''))
     = Inl (JsError ''Error'' ''Not found'')
   \<and> outcome (invoke
      (fetch_fulfils \<lparr> Response.status = 500, json = Inr (JObject [(''error'', JNumber (Integer 7))]) \<rparr>)
      \<lparr> this_baseUrl = ''https://host/v1'', this_apiKey = ''k'' \<rparr> Providers_list)
     = Inl (JsError ''Error'' ''HTTP 500'')
   \<and> outcome (invoke
      (fetch_fulfils \<lparr> Response.status = 503, json = Inl (JsError ''SyntaxError'' ''Unexpected end of JSON input'') \<rparr>)
      \<lparr> this_baseUrl = ''https://host/v1'', this_apiKey = ''k'' \<rparr> Providers_list)
     = Inl (JsError ''Error'' ''Failed to parse response body as JSON'')"
  using non_ok_status_throws_error_message
    [of "fetch_fulfils \<lparr> Response.status = 404, json = Inr (JObject [(''error'', JString ''Not found'')]) \<rparr>"
        "\<lparr> this_baseUrl = ''https://host/v1'', this_apiKey = ''k'' \<rparr>" "Inventory_get ''inv-1''"
        "\<lparr> Response.status = 404, json = Inr (JObject [(''error'', JString ''Not found'')]) \<rparr>"
        "JObject [(''error'', JNumber (Integer 7))]"]
    non_ok_status_throws_error_message
    [of "fetch_fulfils \<lparr> Response.status = 503, json = Inl (JsError ''SyntaxError'' ''Unexpected end of JSON input'') \<rparr>"
        "\<lparr> this_baseUrl = ''https://host/v1'', this_apiKey = ''k'' \<rparr>" "Providers_list"
        "\<lparr> Response.status = 503, json = Inl (JsError ''SyntaxError'' ''Unexpected end of JSON input'') \<rparr>"
        "JObject [(''error'', JNumber (Integer 7))]"]
  by (simp add: fetch_fulfils_def parsed_body_def parse_failure_def)

text \<open>
  C2. For every call whose response has status 200 and a body that fails to decode as
  JSON, the call resolves with the object
  \<open>{error: 'Failed to parse response body as JSON'}\<close>; nothing is thrown.
\<close>

theorem decode_failure_resolves_with_synthetic_object:
  "fetch (issued (invoke fetch this c)) = Inr response \<Longrightarrow>
   Response.status response = 200 \<Longrightarrow> json response = Inl e \<Longrightarrow>
   outcome (invoke fetch this c)
     = Inr (JObject [(''error'', JString ''Failed to parse response body as JSON'')])"
  by (simp add: outcome_invoke ok_def parsed_body_def parse_failure_def)

theorem decode_failure_resolves_with_synthetic_object_witness:
  "outcome (invoke (fetch_fulfils \<lparr> Response.status = 200, json = Inl (JsError ''SyntaxError'' ''Unexpected end of JSON input'') \<rparr>)
      \<lparr> this_baseUrl = ''https://host/v1'', this_apiKey = ''k'' \<rparr> Providers_list)
     = Inr (JObject [(''error'', JString ''Failed to parse response body as JSON'')])"
  using decode_failure_resolves_with_synthetic_object
    [of "fetch_fulfils \<lparr> Response.status = 200, json = Inl (JsError ''SyntaxError'' ''Unexpected end of JSON input'') \<rparr>"
        "\<lparr> this_baseUrl = ''https://host/v1'', this_apiKey = ''k'' \<rparr>" "Providers_list"
        "\<lparr> Response.status = 200, json = Inl (JsError ''SyntaxError'' ''Unexpected end of JSON input'') \<rparr>"]
  by (simp add: fetch_fulfils_def)

text \<open>
  C9. For every call, when \<open>fetch\<close> itself rejects with a transport error, the call rejects
  with that same error: it is neither caught, nor replaced by the synthetic parse-failure
  object, nor rewrapped. When \<open>fetch\<close> has fulfilled and \<open>json()\<close> rejects while it reads
  the body, whatever the error (a connection or timeout error included), the error is
  caught and replaced by the synthetic object: the call resolves with that object for a
  status in 200..299 and throws an \<open>Error\<close> with the parse-failure message otherwise.
\<close>

theorem fetch_rejection_propagates_body_error_replaced:
  "(fetch (issued (invoke fetch this c)) = Inl e \<longrightarrow> outcome (invoke fetch this c) = Inl e)
   \<and> (fetch (issued (invoke fetch this c)) = Inr response \<and> json response = Inl e'
      \<longrightarrow> outcome (invoke fetch this c)
            = (if 200 \<le> Response.status response \<and> Response.status response \<le> 299
               then Inr (JObject [(''error'', JString ''Failed to parse response body as JSON'')])
               else Inl (JsError ''Error'' ''Failed to parse response body as JSON'')))"
  by (simp add: outcome_invoke ok_def parsed_body_def parse_failure_def failure_message_error_field
      new_Error_def)

theorem fetch_rejection_propagates_body_error_replaced_witness:
  "outcome (invoke (fetch_rejects (JsError ''TypeError'' ''fetch failed''))
      \<lparr> this_baseUrl = ''https://host/v1'', this_apiKey = ''k'' \<rparr>
      (Deployments_get ''d-1''))
     = Inl (JsError ''TypeError'' ''fetch failed'')
   \<and> outcome (invoke
      (fetch_fulfils \<lparr> Response.status = 502, json = Inl (JsError ''TypeError'' ''terminated'') \<rparr>)
      \<lparr> this_baseUrl = ''https://host/v1'', this_apiKey = ''k'' \<rparr>
      (Deployments_get ''d-1''))
     = Inl (JsError ''Error'' ''Failed to parse response body as JSON'')"
  using fetch_rejection_propagates_body_error_replaced
    [of "fetch_rejects (JsError ''TypeError'' ''fetch failed'')"
        "\<lparr> this_baseUrl = ''https://host/v1'', this_apiKey = ''k'' \<rparr>"
        "Deployments_get ''d-1''" "JsError ''TypeError'' ''fetch failed''"]
    fetch_rejection_propagates_body_error_replaced
    [of "fetch_fulfils \<lparr> Response.status = 502, json = Inl (JsError ''TypeError'' ''terminated'') \<rparr>"
        "\<lparr> this_baseUrl = ''https://host/v1'', this_apiKey = ''k'' \<rparr>"
        "Deployments_get ''d-1''" _
        "\<lparr> Response.status = 502, json = Inl (JsError ''TypeError'' ''terminated'') \<rparr>"
        "JsError ''TypeError'' ''terminated''"]
  by (simp add: fetch_rejects_def fetch_fulfils_def)

text \<open>
  A transport error is therefore not always propagated: when the connection fails while
  the body of a 200 response is read, the call resolves with the synthetic object.
\<close>

theorem body_read_error_counterexample:
  "outcome (invoke
      (fetch_fulfils \<lparr> Response.status = 200, json = Inl (JsError ''TypeError'' ''terminated'') \<rparr>)
      \<lparr> this_baseUrl = ''https://host/v1'', this_apiKey = ''k'' \<rparr>
      (Inventory_get ''inv-1''))
     = Inr (JObject [(''error'', JString ''Failed to parse response body as JSON'')])
   \<and> outcome (invoke
      (fetch_fulfils \<lparr> Response.status = 200, json = Inl (JsError ''TypeError'' ''terminated'') \<rparr>)
      \<lparr> this_baseUrl = ''https://host/v1'', this_apiKey = ''k'' \<rparr>
      (Inventory_get ''inv-1''))
     \<noteq> Inl (JsError ''TypeError'' ''terminated'')"
  by (simp add: inventory_get_def outcome_request fetch_fulfils_def ok_def parsed_body_def
      parse_failure_def)

section \<open>Query strings\<close>

text \<open>
  C3. For every call of \<open>inventory.list(params)\<close>, the request URL is the base URL, the
  path \<open>/sdk-inventory\<close> and, after a \<open>?\<close> when it is not empty, the query string built
  from the optional parameters in the declared order (\<open>provider_id\<close>, \<open>region_id\<close>,
  \<open>instance_type\<close>, \<open>min_vcpu\<close>, \<open>max_price_usd_hr\<close>, \<open>accel_model\<close>,
  \<open>availability_type\<close>, \<open>limit\<close>, \<open>offset\<close>): a parameter whose value is falsy (missing,
  \<open>undefined\<close>, \<open>null\<close>, zero, \<open>NaN\<close> or the empty string) is omitted, every other
  one is included as \<open>name=value\<close> with the value's string form-urlencoded. The filter
  \<open>{min_vcpu: 4, max_price_usd_hr: 1.0, limit: 20}\<close> gives exactly
  \<open>min_vcpu=4&max_price_usd_hr=1&limit=20\<close>.
\<close>

theorem inventory_list_query_string:
  "url (issued (inventory_list fetch this params))
     = this_baseUrl this @
         with_query ''/sdk-inventory'' (query_string param_falsy (inventory_list_declared params))
   \<and> url (issued (inventory_list fetch this (Given scenario_filter)))
     = this_baseUrl this @ ''/sdk-inventory?min_vcpu=4&max_price_usd_hr=1&limit=20''
   \<and> (param_falsy p \<longleftrightarrow> param_absent_null_zero_or_empty p \<or> p = NumberParam (Given NaN))"
proof -
  have "param_falsy p \<longleftrightarrow> param_absent_null_zero_or_empty p \<or> p = NumberParam (Given NaN)"
    by (cases p rule: param_falsy.cases) auto
  then show ?thesis
    by (simp add: inventory_list_endpoint url_issued_request scenario_query with_query_def)
qed

text \<open>
  With omission read as "missing, \<open>null\<close>, zero or the empty string" only, the filter
  \<open>{min_vcpu: NaN}\<close> would have to give \<open>min_vcpu=NaN\<close>; the client sends no query
  string at all.
\<close>

theorem inventory_list_NaN_counterexample:
  "url (issued (inventory_list (fetch_rejects (JsError ''TypeError'' ''fetch failed''))
          \<lparr> this_baseUrl = ''https://host/v1'', this_apiKey = ''k'' \<rparr>
          (Given (no_filter \<lparr> InventoryListParams.min_vcpu := Given NaN \<rparr>))))
     = ''https://host/v1/sdk-inventory''
   \<and> ''https://host/v1'' @
       with_query ''/sdk-inventory''
         (query_string param_absent_null_zero_or_empty
            (inventory_list_declared (Given (no_filter \<lparr> InventoryListParams.min_vcpu := Given NaN \<rparr>))))
     = ''https://host/v1/sdk-inventory?min_vcpu=NaN''
   \<and> url (issued (inventory_list (fetch_rejects (JsError ''TypeError'' ''fetch failed''))
          \<lparr> this_baseUrl = ''https://host/v1'', this_apiKey = ''k'' \<rparr>
          (Given (no_filter \<lparr> InventoryListParams.min_vcpu := Given NaN \<rparr>))))
     \<noteq> ''https://host/v1'' @
       with_query ''/sdk-inventory''
         (query_string param_absent_null_zero_or_empty
            (inventory_list_declared (Given (no_filter \<lparr> InventoryListParams.min_vcpu := Given NaN \<rparr>))))"
  by (simp add: inventory_list_endpoint url_issued_request with_query_def query_string_def
      inventory_list_declared_def no_filter_def opt_chain_def urlencode_def urlencode_byte_def
      urlencoded_unreserved_def)

text \<open>
  C7. For every provider name, the empty one included, and every \<open>params\<close>,
  \<open>inventory.getByProvider\<close> sets \<open>provider\<close> unconditionally: the query string is never
  empty and begins with \<open>provider=\<close> followed by the form-urlencoded name, which is the
  name itself when the name has unreserved characters only.
\<close>

theorem getByProvider_always_sets_provider:
  "url (issued (inventory_getByProvider fetch this providerName params))
     = this_baseUrl this @ ''/sdk-inventory/provider/'' @ providerName @
         ''?provider='' @ urlencode providerName @
         (if query_string param_falsy (getByProvider_declared params) = [] then []
          else ''&'' @ query_string param_falsy (getByProvider_declared params))
   \<and> url (issued (inventory_getByProvider fetch this [] Undefined))
     = this_baseUrl this @ ''/sdk-inventory/provider/?provider=''
   \<and> ((\<forall>c \<in> set providerName. urlencoded_unreserved c) \<longrightarrow> urlencode providerName = providerName)"
  by (simp add: getByProvider_url getByProvider_no_params urlencode_unreserved)

theorem getByProvider_always_sets_provider_witness:
  "list_all urlencoded_unreserved ''aws''
   \<and> url (issued (inventory_getByProvider (fetch_rejects (JsError ''TypeError'' ''fetch failed''))
          \<lparr> this_baseUrl = ''https://host/v1'', this_apiKey = ''k'' \<rparr> ''aws'' Undefined))
     = ''https://host/v1/sdk-inventory/provider/aws?provider=aws''"
  using getByProvider_always_sets_provider
    [of "fetch_rejects (JsError ''TypeError'' ''fetch failed'')"
        "\<lparr> this_baseUrl = ''https://host/v1'', this_apiKey = ''k'' \<rparr>" "''aws''" Undefined]
  by (simp add: urlencoded_unreserved_def getByProvider_no_params)

text \<open>
  C10. \<open>inventory.get\<close>, \<open>deployments.get\<close> and the path segment of
  \<open>inventory.getByProvider\<close> put the identifier into the URL path as it is, whatever it
  is: the empty identifier gives the path \<open>/sdk-inventory/\<close>, an identifier with \<open>/\<close> or
  \<open>?\<close> changes the route (\<open>inventory.get('provider/aws?provider=aws')\<close> issues the very
  request of \<open>inventory.getByProvider('aws')\<close>), whereas the same characters in a
  query-string value are percent-encoded.
\<close>

theorem path_identifiers_verbatim:
  "url (issued (inventory_get fetch this ident)) = this_baseUrl this @ ''/sdk-inventory/'' @ ident
   \<and> url (issued (deployments_get fetch this ident)) = this_baseUrl this @ ''/sdk-deployments/'' @ ident
   \<and> url (issued (inventory_getByProvider fetch this ident params))
       = this_baseUrl this @ ''/sdk-inventory/provider/'' @ ident @
           ''?provider='' @ urlencode ident @
           (if query_string param_falsy (getByProvider_declared params) = [] then []
            else ''&'' @ query_string param_falsy (getByProvider_declared params))
   \<and> url (issued (inventory_get fetch this [])) = this_baseUrl this @ ''/sdk-inventory/''
   \<and> issued (inventory_get fetch this ''provider/aws?provider=aws'')
       = issued (inventory_getByProvider fetch this ''aws'' Undefined)
   \<and> url (issued (deployments_get fetch this ''d-1/../d-2?x=1''))
       = this_baseUrl this @ ''/sdk-deployments/d-1/../d-2?x=1''
   \<and> url (issued (inventory_getByProvider fetch this ''a/b?c'' Undefined))
       = this_baseUrl this @ ''/sdk-inventory/provider/a/b?c?provider=a%2Fb%3Fc''"
proof -
  have aws: "urlencode ''aws'' = ''aws''"
    by (simp add: urlencode_def urlencode_byte_def urlencoded_unreserved_def)
  have "issued (inventory_get fetch this ''provider/aws?provider=aws'')
       = issued (inventory_getByProvider fetch this ''aws'' Undefined)"
    by (simp add: inventory_get_def getByProvider_endpoint getByProvider_no_params
        issued_request aws)
  then show ?thesis
    by (simp add: getByProvider_url getByProvider_no_params urlencode_reserved)
      (simp add: inventory_get_def deployments_get_def url_issued_request)
qed

section \<open>Creating a deployment\<close>

text \<open>
  C8. \<open>deployments.create(params)\<close> first serializes its argument. \<open>JSON.stringify\<close>
  throws exactly for an argument that holds a BigInt or a circular reference; the call
  then rejects with that error and issues no request. Otherwise the call issues one
  \<open>POST\<close> to \<open>/sdk-deployments\<close> with the two fixed headers, whose body is the text of the
  argument and nothing else: for an object, one member per property the caller supplied
  with a value that has a JSON text (a property that is \<open>undefined\<close> or a function is
  left out), the array-index keys first in ascending order and the other keys in
  insertion order. For \<open>{cloud_inventory_id: 'abc', rental_duration_hours: 24}\<close> the body
  has exactly those two keys. On a successful response the decoded body is returned as
  it is.
\<close>

theorem deployments_create_sends_serialized_params:
  \<open>(isl (JSON_stringify params) \<longleftrightarrow> unserializable params)
   \<and> (JSON_stringify params = Inl e
      \<longrightarrow> requests (deployments_create fetch this params) = []
          \<and> settles (deployments_create fetch this params) = Inl e)
   \<and> (JSON_stringify params = Inr text
      \<longrightarrow> requests (deployments_create fetch this params)
            = [\<lparr> url = this_baseUrl this @ ''/sdk-deployments'',
                 init = \<lparr> http_method = Some ''POST'', body = text,
                          headers = Some [(''Content-Type'', ''application/json''),
                                          (''x-api-key'', this_apiKey this)] \<rparr> \<rparr>])
   \<and> (\<not> unserializable (JObject props)
      \<longrightarrow> JSON_stringify (JObject props)
            = Inr (Some (''{'' @ join '','' (map member_text (members props)) @ ''}'')))
   \<and> map fst (members [(''cloud_inventory_id'', JString ''abc''),
                         (''rental_duration_hours'', JNumber (Integer 24))])
       = [''cloud_inventory_id'', ''rental_duration_hours'']
   \<and> JSON_stringify (JObject [(''cloud_inventory_id'', JString ''abc''),
                               (''rental_duration_hours'', JNumber (Integer 24))])
       = Inr (Some ''{"cloud_inventory_id":"abc","rental_duration_hours":24}'')
   \<and> JSON_stringify (JObject [(''cloud_inventory_id'', JString ''abc''),
                               (''ssh_public_key'', JUndefined),
                               (''tags'', JObject [(''b'', JNumber (Integer 1)),
                                                   (''2'', JString ''x''),
                                                   (''1'', JString ''y''),
                                                   (''f'', JFunction),
                                                   (''created'', JToJSON (JString ''2025-01-01T00:00:00.000Z''))])])
       = Inr (Some ''{"cloud_inventory_id":"abc","tags":{"1":"y","2":"x","b":1,"created":"2025-01-01T00:00:00.000Z"}}'')
   \<and> (requests (deployments_create fetch this params) = [args]
        \<and> fetch args = Inr response \<and> ok response \<and> json response = Inr v
      \<longrightarrow> settles (deployments_create fetch this params) = Inr v)\<close>
proof -
  have c1: "isl (JSON_stringify params) \<longleftrightarrow> unserializable params"
    by (simp add: JSON_stringify_def SerializeJSONProperty_throws)
  have c2: "JSON_stringify params = Inl e
      \<longrightarrow> requests (deployments_create fetch this params) = []
          \<and> settles (deployments_create fetch this params) = Inl e"
    by (simp add: deployments_create_def requests_def settles_def)
  have c3: "JSON_stringify params = Inr text
      \<longrightarrow> requests (deployments_create fetch this params)
            = [\<lparr> url = this_baseUrl this @ ''/sdk-deployments'',
                 init = \<lparr> http_method = Some ''POST'', body = text,
                          headers = Some [(''Content-Type'', ''application/json''),
                                          (''x-api-key'', this_apiKey this)] \<rparr> \<rparr>]"
    by (simp add: deployments_create_def requests_def post_deployment_def issued_request spread_def)
  have c4: "\<not> unserializable (JObject props)
      \<longrightarrow> JSON_stringify (JObject props)
            = Inr (Some (''{'' @ join '','' (map member_text (members props)) @ ''}''))"
    using JSON_stringify_object[of props] by blast
  have c5: "map fst (members [(''cloud_inventory_id'', JString ''abc''),
                         (''rental_duration_hours'', JNumber (Integer 24))])
       = [''cloud_inventory_id'', ''rental_duration_hours'']"
    by (simp add: members_def property_order_def array_index_names)
  have c8: "requests (deployments_create fetch this params) = [args]
        \<and> fetch args = Inr response \<and> ok response \<and> json response = Inr v
      \<longrightarrow> settles (deployments_create fetch this params) = Inr v"
    by (cases "JSON_stringify params")
      (auto simp: deployments_create_def requests_def settles_def post_deployment_def
        outcome_request parsed_body_def)
  show ?thesis
    by (intro conjI c1 c2 c3 c4 c5 scenario_body tagged_body c8)
qed

theorem deployments_create_sends_serialized_params_witness:
  \<open>requests (deployments_create
      (fetch_fulfils \<lparr> Response.status = 201,
         json = Inr (JObject [(''message'', JString ''created''),
                              (''data'', JObject [(''deployment_id'', JString ''d-1'')])]) \<rparr>)
      \<lparr> this_baseUrl = ''https://host/v1'', this_apiKey = ''k'' \<rparr>
      (JObject [(''cloud_inventory_id'', JString ''abc''),
                (''rental_duration_hours'', JNumber (Integer 24))]))
    = [\<lparr> url = ''https://host/v1/sdk-deployments'',
         init = \<lparr> http_method = Some ''POST'',
                  body = Some ''{"cloud_inventory_id":"abc","rental_duration_hours":24}'',
                  headers = Some [(''Content-Type'', ''application/json''), (''x-api-key'', ''k'')] \<rparr> \<rparr>]
   \<and> settles (deployments_create
      (fetch_fulfils \<lparr> Response.status = 201,
         json = Inr (JObject [(''message'', JString ''created''),
                              (''data'', JObject [(''deployment_id'', JString ''d-1'')])]) \<rparr>)
      \<lparr> this_baseUrl = ''https://host/v1'', this_apiKey = ''k'' \<rparr>
      (JObject [(''cloud_inventory_id'', JString ''abc''),
                (''rental_duration_hours'', JNumber (Integer 24))]))
    = Inr (JObject [(''message'', JString ''created''),
                    (''data'', JObject [(''deployment_id'', JString ''d-1'')])])
   \<and> unserializable (JObject [(''cloud_inventory_id'', JString ''abc''),
                                (''tags'', JObject [(''n'', JBigInt 1)])])
   \<and> requests (deployments_create
      (fetch_fulfils \<lparr> Response.status = 201, json = Inr JNull \<rparr>)
      \<lparr> this_baseUrl = ''https://host/v1'', this_apiKey = ''k'' \<rparr>
      (JObject [(''cloud_inventory_id'', JString ''abc''),
                (''tags'', JObject [(''n'', JBigInt 1)])]))
    = []\<close>
proof -
  let ?ok = "\<lparr> Response.status = 201,
         json = Inr (JObject [(''message'', JString ''created''),
                              (''data'', JObject [(''deployment_id'', JString ''d-1'')])]) \<rparr>"
  let ?sdk = "\<lparr> this_baseUrl = ''https://host/v1'', this_apiKey = ''k'' \<rparr>"
  let ?good = "JObject [(''cloud_inventory_id'', JString ''abc''),
                (''rental_duration_hours'', JNumber (Integer 24))]"
  let ?bad = "JObject [(''cloud_inventory_id'', JString ''abc''),
                (''tags'', JObject [(''n'', JBigInt 1)])]"
  let ?sent = \<open>\<lparr> url = ''https://host/v1/sdk-deployments'',
         init = \<lparr> http_method = Some ''POST'',
                  body = Some ''{"cloud_inventory_id":"abc","rental_duration_hours":24}'',
                  headers = Some [(''Content-Type'', ''application/json''), (''x-api-key'', ''k'')] \<rparr> \<rparr>\<close>
  have bad: "unserializable ?bad" by simp
  show ?thesis
    using deployments_create_sends_serialized_params
        [of ?good _ "fetch_fulfils ?ok" ?sdk
            \<open>Some ''{"cloud_inventory_id":"abc","rental_duration_hours":24}''\<close>
            "[(''cloud_inventory_id'', JString ''abc''),
              (''rental_duration_hours'', JNumber (Integer 24))]"
            ?sent ?ok
            "JObject [(''message'', JString ''created''),
                    (''data'', JObject [(''deployment_id'', JString ''d-1'')])]"]
      deployments_create_sends_serialized_params
        [of ?bad "JsError ''TypeError'' ''Do not know how to serialize a BigInt''"
            "fetch_fulfils \<lparr> Response.status = 201, json = Inr JNull \<rparr>" ?sdk]
      bad
    by (simp add: scenario_body BigInt_body fetch_fulfils_def ok_def)
qed

text \<open>
  Not every argument is sent: with a BigInt among the tags, \<open>JSON.stringify\<close> throws a
  \<open>TypeError\<close>, the call rejects with it and no request is issued.
\<close>

theorem deployments_create_BigInt_counterexample:
  "requests (deployments_create
      (fetch_fulfils \<lparr> Response.status = 201, json = Inr JNull \<rparr>)
      \<lparr> this_baseUrl = ''https://host/v1'', this_apiKey = ''k'' \<rparr>
      (JObject [(''cloud_inventory_id'', JString ''abc''),
                (''tags'', JObject [(''n'', JBigInt 1)])]))
    = []
   \<and> settles (deployments_create
      (fetch_fulfils \<lparr> Response.status = 201, json = Inr JNull \<rparr>)
      \<lparr> this_baseUrl = ''https://host/v1'', this_apiKey = ''k'' \<rparr>
      (JObject [(''cloud_inventory_id'', JString ''abc''),
                (''tags'', JObject [(''n'', JBigInt 1)])]))
    = Inl (JsError ''TypeError'' ''Do not know how to serialize a BigInt'')"
  by (simp add: deployments_create_def BigInt_body requests_def settles_def)

end
